theory Spec2Isabelle
  imports Complex_Main
begin

section \<open>Numbers\<close>

text \<open>
  A finite float is a real number. In the two engines, where share counts and the
  comparison of a cost with the cash turn on the last bit, every arithmetic operation
  returns the exact result rounded by a function \<open>fl\<close>, which is a parameter: the
  identity gives exact arithmetic, and the rounding of IEEE doubles is another instance.
  The analytics and the validator compare up to a tolerance, and there the exact result
  stands for the rounded one. A numpy division whose divisor is zero does not raise: it
  yields an infinity or NaN, which the comparisons that follow treat in their own way,
  so the quotient is a value of its own type.
\<close>

datatype npfloat = Fin real | PosInf | NegInf | NaN

definition np_div :: "real \<Rightarrow> real \<Rightarrow> npfloat" where
  "np_div x y =
     (if y \<noteq> 0 then Fin (x / y)
      else if 0 < x then PosInf
      else if x < 0 then NegInf
      else NaN)"

datatype py_error = IndexError | KeyError | ValueError | ZeroDivisionError | OverflowError

text \<open>The quotient of two floats, rounded.\<close>

definition fl_div :: "(real \<Rightarrow> real) \<Rightarrow> real \<Rightarrow> real \<Rightarrow> npfloat" where
  "fl_div fl x y =
     (if y \<noteq> 0 then Fin (fl (x / y))
      else if 0 < x then PosInf
      else if x < 0 then NegInf
      else NaN)"

text \<open>
  Two properties of a rounding: it keeps a non-negative result non-negative; and, the
  standard model, its relative error is at most the unit roundoff \<open>u\<close>.
\<close>

definition keeps_sign :: "(real \<Rightarrow> real) \<Rightarrow> bool" where
  "keeps_sign fl = (\<forall>x. 0 \<le> x \<longrightarrow> 0 \<le> fl x)"

definition rounds :: "real \<Rightarrow> (real \<Rightarrow> real) \<Rightarrow> bool" where
  "rounds u fl = (\<forall>x. \<bar>fl x - x\<bar> \<le> u * \<bar>x\<bar>)"

text \<open>Exact arithmetic: nothing is rounded.\<close>

definition exact :: "(real \<Rightarrow> real) \<Rightarrow> bool" where
  "exact fl = (\<forall>x. fl x = x)"

section \<open>Polygon engine: momentum strategy\<close>

text \<open>
  \<^verbatim>\<open>PolygonBacktestingEngine._run_momentum_strategy\<close>. A date is a day number. A price
  frame lists the \<^verbatim>\<open>Close\<close> of one symbol under its index dates, in index order; as in a
  price history, a date labels one row. The data lists the frames under their symbols
  in the order of the dictionary.
\<close>

type_synonym price_frame = "(int \<times> real) list"
type_synonym market_data = "(string \<times> price_frame) list"

text \<open>The parameters the momentum run reads, and the slippage, which \<^verbatim>\<open>default_params\<close>
  declares and the run never reads.\<close>

record params =
  p_initial_capital :: real
  p_commission :: real
  p_slippage :: real
  p_position_size :: real
  p_max_positions :: int

text \<open>The lookback period counts bars.\<close>

record momentum_config =
  lookback_period :: nat
  momentum_threshold :: real
  holding_period :: int

record position =
  pos_quantity :: real
  pos_entry_price :: real
  pos_entry_date :: int
  pos_cost :: real

record trade =
  tr_symbol :: string
  tr_entry_date :: int
  tr_exit_date :: int
  tr_entry_price :: real
  tr_exit_price :: real
  tr_quantity :: real
  tr_pnl :: real
  tr_pnl_pct :: npfloat

record results =
  res_trades :: "trade list"
  res_positions :: "(string \<times> position) list"
  res_portfolio_value :: "real list"
  res_cash :: real
  res_total_value :: real
  res_dates :: "int list"

definition initial_results :: "params \<Rightarrow> results" where
  "initial_results ps =
     \<lparr>res_trades = [], res_positions = [], res_portfolio_value = [],
      res_cash = p_initial_capital ps, res_total_value = p_initial_capital ps, res_dates = []\<rparr>"

definition all_dates :: "market_data \<Rightarrow> int list" where
  "all_dates data = sort (remdups (concat (map (\<lambda>sd. map fst (snd sd)) data)))"

text \<open>The close of a symbol on a date, when the symbol is in the data and the date in its index.\<close>

definition close_on :: "market_data \<Rightarrow> string \<Rightarrow> int \<Rightarrow> real option" where
  "close_on data symbol date =
     (case map_of data symbol of None \<Rightarrow> None | Some df \<Rightarrow> map_of df date)"

text \<open>Update portfolio value.\<close>

fun portfolio_value_on ::
  "(real \<Rightarrow> real) \<Rightarrow> market_data \<Rightarrow> int \<Rightarrow> real \<Rightarrow> (string \<times> position) list \<Rightarrow> real" where
  "portfolio_value_on fl data date value [] = value"
| "portfolio_value_on fl data date value ((symbol, p) # rest) =
     portfolio_value_on fl data date
       (case close_on data symbol date of
          None \<Rightarrow> value
        | Some current_price \<Rightarrow> fl (value + fl (pos_quantity p * current_price)))
       rest"

definition record_value :: "(real \<Rightarrow> real) \<Rightarrow> market_data \<Rightarrow> int \<Rightarrow> results \<Rightarrow> results" where
  "record_value fl data date r =
     (let portfolio_value = portfolio_value_on fl data date (res_cash r) (res_positions r)
      in r\<lparr>res_total_value := portfolio_value,
            res_portfolio_value := res_portfolio_value r @ [portfolio_value],
            res_dates := res_dates r @ [date]\<rparr>)"

text \<open>
  Check for exit signals: one turn of the loop over the symbols held when the loop
  starts. A turn removes no position but its own, so the position it reads is the one
  held at the start.
\<close>

definition exit_value_of :: "(real \<Rightarrow> real) \<Rightarrow> params \<Rightarrow> position \<Rightarrow> real \<Rightarrow> real" where
  "exit_value_of fl ps p current_price =
     fl (fl (pos_quantity p * current_price) * fl (1 - p_commission ps))"

definition exit_position ::
  "(real \<Rightarrow> real) \<Rightarrow> market_data \<Rightarrow> params \<Rightarrow> momentum_config \<Rightarrow> int \<Rightarrow> results
   \<Rightarrow> string \<times> position \<Rightarrow> results" where
  "exit_position fl data ps cfg date r sp =
     (case close_on data (fst sp) date of
        None \<Rightarrow> r
      | Some current_price \<Rightarrow>
          (let p = snd sp;
               days_held = date - pos_entry_date p
           in if days_held \<ge> holding_period cfg then
                (let exit_value = exit_value_of fl ps p current_price
                 in r\<lparr>res_cash := fl (res_cash r + exit_value),
                       res_trades := res_trades r @
                         [\<lparr>tr_symbol = fst sp,
                           tr_entry_date = pos_entry_date p,
                           tr_exit_date = date,
                           tr_entry_price = pos_entry_price p,
                           tr_exit_price = current_price,
                           tr_quantity = pos_quantity p,
                           tr_pnl = fl (exit_value - pos_cost p),
                           tr_pnl_pct = fl_div fl (fl (exit_value - pos_cost p)) (pos_cost p)\<rparr>],
                       res_positions := filter (\<lambda>sq. fst sq \<noteq> fst sp) (res_positions r)\<rparr>)
              else r))"

definition check_exits ::
  "(real \<Rightarrow> real) \<Rightarrow> market_data \<Rightarrow> params \<Rightarrow> momentum_config \<Rightarrow> int \<Rightarrow> results \<Rightarrow> results" where
  "check_exits fl data ps cfg date r = foldl (exit_position fl data ps cfg date) r (res_positions r)"

text \<open>Check for entry signals: the candidates, in the order of the data.\<close>

record candidate =
  cand_symbol :: string
  cand_momentum :: npfloat
  cand_price :: real

fun index_of :: "int \<Rightarrow> int list \<Rightarrow> nat" where
  "index_of d [] = 0"
| "index_of d (x # xs) = (if x = d then 0 else Suc (index_of d xs))"

text \<open>\<^verbatim>\<open>df.index[i]\<close>: a negative position counts from the end.\<close>

definition index_at :: "price_frame \<Rightarrow> int \<Rightarrow> py_error + int" where
  "index_at df i =
     (if 0 \<le> i \<and> i < int (length df) then Inr (fst (df ! nat i))
      else if i < 0 \<and> - int (length df) \<le> i then Inr (fst (df ! nat (int (length df) + i)))
      else Inl IndexError)"

fun np_gt :: "npfloat \<Rightarrow> real \<Rightarrow> bool" where
  "np_gt (Fin x) t = (t < x)"
| "np_gt PosInf t = True"
| "np_gt NegInf t = False"
| "np_gt NaN t = False"

definition candidate_of ::
  "(real \<Rightarrow> real) \<Rightarrow> momentum_config \<Rightarrow> (string \<times> position) list \<Rightarrow> int
   \<Rightarrow> string \<times> price_frame \<Rightarrow> py_error + candidate list" where
  "candidate_of fl cfg held date sd =
     (let symbol = fst sd; df = snd sd
      in case map_of df date of
           None \<Rightarrow> Inr []
         | Some close \<Rightarrow>
             if symbol \<in> fst ` set held then Inr []
             else if length df \<ge> lookback_period cfg then
               (case index_at df (int (index_of date (map fst df)) - int (lookback_period cfg)) of
                  Inl err \<Rightarrow> Inl err
                | Inr lookback_date \<Rightarrow>
                    (case map_of df lookback_date of
                       None \<Rightarrow> Inr []
                     | Some lookback_close \<Rightarrow>
                         (let momentum = fl_div fl (fl (close - lookback_close)) lookback_close
                          in if np_gt momentum (momentum_threshold cfg)
                             then Inr [\<lparr>cand_symbol = symbol, cand_momentum = momentum,
                                        cand_price = close\<rparr>]
                             else Inr [])))
             else Inr [])"

fun collect_candidates ::
  "(real \<Rightarrow> real) \<Rightarrow> momentum_config \<Rightarrow> (string \<times> position) list \<Rightarrow> int \<Rightarrow> market_data
   \<Rightarrow> py_error + candidate list" where
  "collect_candidates fl cfg held date [] = Inr []"
| "collect_candidates fl cfg held date (sd # rest) =
     (case candidate_of fl cfg held date sd of
        Inl err \<Rightarrow> Inl err
      | Inr cs \<Rightarrow>
          (case collect_candidates fl cfg held date rest of
             Inl err \<Rightarrow> Inl err
           | Inr ds \<Rightarrow> Inr (cs @ ds)))"

text \<open>
  \<^verbatim>\<open>candidates.sort(key=lambda x: x['momentum'], reverse=True)\<close>: a stable sort, largest
  momentum first. The momenta of candidates are finite or plus infinity.
\<close>

fun np_less :: "npfloat \<Rightarrow> npfloat \<Rightarrow> bool" where
  "np_less NaN b = False"
| "np_less a NaN = False"
| "np_less a NegInf = False"
| "np_less NegInf b = True"
| "np_less PosInf b = False"
| "np_less a PosInf = True"
| "np_less (Fin x) (Fin y) = (x < y)"

fun insert_desc :: "candidate \<Rightarrow> candidate list \<Rightarrow> candidate list" where
  "insert_desc c [] = [c]"
| "insert_desc c (d # ds) =
     (if np_less (cand_momentum d) (cand_momentum c) then c # d # ds
      else d # insert_desc c ds)"

definition sort_desc :: "candidate list \<Rightarrow> candidate list" where
  "sort_desc cs = foldl (\<lambda>sorted c. insert_desc c sorted) [] cs"

text \<open>
  Calculate position size and open the position. The quantity is a numpy quotient: for
  price 0 it is infinite or NaN, and then either \<^verbatim>\<open>quantity > 0\<close> is false or the cost
  \<^verbatim>\<open>inf * 0\<close> is NaN and \<^verbatim>\<open>cost <= cash\<close> is false.
\<close>

definition entry_cost :: "(real \<Rightarrow> real) \<Rightarrow> params \<Rightarrow> real \<Rightarrow> real \<Rightarrow> real" where
  "entry_cost fl ps quantity price = fl (fl (quantity * price) * fl (1 + p_commission ps))"

definition open_position :: "(real \<Rightarrow> real) \<Rightarrow> params \<Rightarrow> int \<Rightarrow> results \<Rightarrow> candidate \<Rightarrow> results" where
  "open_position fl ps date r c =
     (let symbol = cand_symbol c;
          price = cand_price c;
          position_value = fl (res_cash r * p_position_size ps)
      in case fl_div fl position_value price of
           Fin quantity \<Rightarrow>
             if quantity > 0 then
               (let cost = entry_cost fl ps quantity price
                in if cost \<le> res_cash r then
                     r\<lparr>res_positions := res_positions r @
                          [(symbol, \<lparr>pos_quantity = quantity, pos_entry_price = price,
                                     pos_entry_date = date, pos_cost = cost\<rparr>)],
                       res_cash := fl (res_cash r - cost)\<rparr>
                   else r)
             else r
         | PosInf \<Rightarrow> r
         | NegInf \<Rightarrow> r
         | NaN \<Rightarrow> r)"

definition check_entries ::
  "(real \<Rightarrow> real) \<Rightarrow> market_data \<Rightarrow> params \<Rightarrow> momentum_config \<Rightarrow> int \<Rightarrow> results
   \<Rightarrow> py_error + results" where
  "check_entries fl data ps cfg date r =
     (if int (length (res_positions r)) < p_max_positions ps then
        (case collect_candidates fl cfg (res_positions r) date data of
           Inl err \<Rightarrow> Inl err
         | Inr candidates \<Rightarrow>
             Inr (foldl (open_position fl ps date) r
                    (take (nat (p_max_positions ps - int (length (res_positions r))))
                       (sort_desc candidates))))
      else Inr r)"

definition day_step ::
  "(real \<Rightarrow> real) \<Rightarrow> market_data \<Rightarrow> params \<Rightarrow> momentum_config \<Rightarrow> results \<Rightarrow> int
   \<Rightarrow> py_error + results" where
  "day_step fl data ps cfg r date =
     check_entries fl data ps cfg date
       (check_exits fl data ps cfg date (record_value fl data date r))"

fun run_days ::
  "(real \<Rightarrow> real) \<Rightarrow> market_data \<Rightarrow> params \<Rightarrow> momentum_config \<Rightarrow> results \<Rightarrow> int list
   \<Rightarrow> py_error + results" where
  "run_days fl data ps cfg r [] = Inr r"
| "run_days fl data ps cfg r (date # dates) =
     (case day_step fl data ps cfg r date of
        Inl err \<Rightarrow> Inl err
      | Inr r' \<Rightarrow> run_days fl data ps cfg r' dates)"

definition run_momentum_strategy ::
  "(real \<Rightarrow> real) \<Rightarrow> market_data \<Rightarrow> params \<Rightarrow> momentum_config \<Rightarrow> py_error + results" where
  "run_momentum_strategy fl data ps cfg =
     run_days fl data ps cfg (initial_results ps) (all_dates data)"


definition test_params :: params where
  "test_params =
     \<lparr>p_initial_capital = 10000, p_commission = 0, p_slippage = 0, p_position_size = 0.5,
      p_max_positions = 5\<rparr>"




definition test_candidate :: candidate where
  "test_candidate = \<lparr>cand_symbol = ''TEST'', cand_momentum = Fin 0.1, cand_price = 110\<rparr>"






definition costed :: "params \<Rightarrow> (string \<times> position) list \<Rightarrow> bool" where
  "costed ps held =
     list_all (\<lambda>sp. pos_cost (snd sp) =
                 pos_quantity (snd sp) * pos_entry_price (snd sp) * (1 + p_commission ps)) held"

text \<open>The net P&L of a trade as the specification writes it.\<close>

definition balanced :: "params \<Rightarrow> trade \<Rightarrow> bool" where
  "balanced ps t =
     (tr_pnl t = (tr_exit_price t - tr_entry_price t) * tr_quantity t
                 - tr_entry_price t * tr_quantity t * p_commission ps
                 - tr_exit_price t * tr_quantity t * p_commission ps)"


section \<open>Enhanced engine: trade execution\<close>

text \<open>
  \<^verbatim>\<open>EnhancedBacktester._execute_trades\<close>. A row of the signal frame has its index date,
  the \<^verbatim>\<open>Signal\<close> cell (\<open>None\<close> when it is NaN) and the \<^verbatim>\<open>Price\<close> cell.
\<close>

record signal_row =
  sr_date :: int
  sr_signal :: "real option"
  sr_price :: real

record eparams =
  e_initial_capital :: real
  e_commission :: real
  e_slippage :: real
  e_position_size :: real

record etrade =
  et_symbol :: string
  et_entry_date :: "int option"
  et_exit_date :: int
  et_entry_price :: real
  et_exit_price :: real
  et_position :: real
  et_shares :: real
  et_gross_pnl :: real
  et_commission :: real
  et_net_pnl :: real
  et_return :: npfloat
  et_cash_after :: real

record estate =
  es_trades :: "etrade list"
  es_position :: real
  es_entry_price :: real
  es_entry_date :: "int option"
  es_cash :: real

definition initial_estate :: "eparams \<Rightarrow> estate" where
  "initial_estate ps =
     \<lparr>es_trades = [], es_position = 0, es_entry_price = 0, es_entry_date = None,
      es_cash = e_initial_capital ps\<rparr>"

text \<open>Apply slippage.\<close>

definition execution_price_of :: "(real \<Rightarrow> real) \<Rightarrow> eparams \<Rightarrow> real \<Rightarrow> real \<Rightarrow> real" where
  "execution_price_of fl ps signal price =
     (if signal > 0 then fl (price * fl (1 + e_slippage ps))
      else if signal < 0 then fl (price * fl (1 - e_slippage ps))
      else price)"

text \<open>
  The trade recorded when a position is closed at an exit price on a date. The cash
  after the trade is summed in one order inside the loop and in another at the end of
  the frame, and is passed in.
\<close>

definition exit_commission :: "(real \<Rightarrow> real) \<Rightarrow> eparams \<Rightarrow> estate \<Rightarrow> real \<Rightarrow> real" where
  "exit_commission fl ps s exit_price = fl (fl (exit_price * \<bar>es_position s\<bar>) * e_commission ps)"

definition closing_trade ::
  "(real \<Rightarrow> real) \<Rightarrow> eparams \<Rightarrow> string \<Rightarrow> estate \<Rightarrow> int \<Rightarrow> real \<Rightarrow> real \<Rightarrow> etrade" where
  "closing_trade fl ps symbol s date exit_price cash_after =
     (let shares = \<bar>es_position s\<bar>;
          gross_pnl = fl (fl (exit_price - es_entry_price s) * shares);
          commission = exit_commission fl ps s exit_price;
          net_pnl = fl (gross_pnl - commission)
      in \<lparr>et_symbol = symbol,
          et_entry_date = es_entry_date s,
          et_exit_date = date,
          et_entry_price = es_entry_price s,
          et_exit_price = exit_price,
          et_position = es_position s,
          et_shares = shares,
          et_gross_pnl = gross_pnl,
          et_commission = commission,
          et_net_pnl = net_pnl,
          et_return = fl_div fl net_pnl (fl (es_entry_price s * shares)),
          et_cash_after = cash_after\<rparr>)"

text \<open>Close existing position if signal changes.\<close>

definition close_if_changed ::
  "(real \<Rightarrow> real) \<Rightarrow> eparams \<Rightarrow> string \<Rightarrow> int \<Rightarrow> real \<Rightarrow> real \<Rightarrow> estate \<Rightarrow> estate" where
  "close_if_changed fl ps symbol date signal execution_price s =
     (if es_position s \<noteq> 0 \<and> signal \<noteq> es_position s then
        (let cash = fl (es_cash s +
                        fl (fl (execution_price * \<bar>es_position s\<bar>) -
                            exit_commission fl ps s execution_price))
         in s\<lparr>es_cash := cash,
               es_trades := es_trades s @ [closing_trade fl ps symbol s date execution_price cash],
               es_position := 0\<rparr>)
      else s)"

text \<open>\<^verbatim>\<open>int(x)\<close> truncates towards zero, and raises on an infinity and on NaN.\<close>

fun py_int :: "npfloat \<Rightarrow> py_error + int" where
  "py_int (Fin x) = Inr (if 0 \<le> x then \<lfloor>x\<rfloor> else \<lceil>x\<rceil>)"
| "py_int PosInf = Inl OverflowError"
| "py_int NegInf = Inl OverflowError"
| "py_int NaN = Inl ValueError"

text \<open>Calculate position size.\<close>

definition entry_shares :: "(real \<Rightarrow> real) \<Rightarrow> eparams \<Rightarrow> real \<Rightarrow> real \<Rightarrow> py_error + int" where
  "entry_shares fl ps cash execution_price =
     (let position_value = fl (cash * e_position_size ps)
      in py_int (fl_div fl position_value execution_price))"

text \<open>Open new position. What the entry takes from the cash: the shares and the commission.\<close>

definition entry_outlay :: "(real \<Rightarrow> real) \<Rightarrow> eparams \<Rightarrow> real \<Rightarrow> int \<Rightarrow> real" where
  "entry_outlay fl ps execution_price shares =
     (let commission = fl (fl (execution_price * real_of_int shares) * e_commission ps)
      in fl (fl (execution_price * real_of_int shares) + commission))"

definition open_if_flat ::
  "(real \<Rightarrow> real) \<Rightarrow> eparams \<Rightarrow> int \<Rightarrow> real \<Rightarrow> real \<Rightarrow> estate \<Rightarrow> py_error + estate" where
  "open_if_flat fl ps date signal execution_price s =
     (if signal \<noteq> 0 \<and> es_position s = 0 then
        (case entry_shares fl ps (es_cash s) execution_price of
           Inl err \<Rightarrow> Inl err
         | Inr shares \<Rightarrow>
             if shares > 0 then
               Inr (s\<lparr>es_position := fl (signal * real_of_int shares),
                       es_entry_price := execution_price,
                       es_entry_date := Some date,
                       es_cash := fl (es_cash s - entry_outlay fl ps execution_price shares)\<rparr>)
             else Inr s)
      else Inr s)"

definition row_step ::
  "(real \<Rightarrow> real) \<Rightarrow> eparams \<Rightarrow> string \<Rightarrow> estate \<Rightarrow> signal_row \<Rightarrow> py_error + estate" where
  "row_step fl ps symbol s row =
     (case sr_signal row of
        None \<Rightarrow> Inr s
      | Some signal \<Rightarrow>
          (let execution_price = execution_price_of fl ps signal (sr_price row)
           in open_if_flat fl ps (sr_date row) signal execution_price
                (close_if_changed fl ps symbol (sr_date row) signal execution_price s)))"

fun run_rows ::
  "(real \<Rightarrow> real) \<Rightarrow> eparams \<Rightarrow> string \<Rightarrow> estate \<Rightarrow> signal_row list \<Rightarrow> py_error + estate" where
  "run_rows fl ps symbol s [] = Inr s"
| "run_rows fl ps symbol s (row # rows) =
     (case row_step fl ps symbol s row of
        Inl err \<Rightarrow> Inl err
      | Inr s' \<Rightarrow> run_rows fl ps symbol s' rows)"

text \<open>
  Close final position if still open. A position is open only after a row has been
  read, so the frame has a last row. Any exception ends in the empty trade list.
\<close>

definition execute_trades ::
  "(real \<Rightarrow> real) \<Rightarrow> signal_row list \<Rightarrow> string \<Rightarrow> eparams \<Rightarrow> etrade list" where
  "execute_trades fl signals symbol ps =
     (case run_rows fl ps symbol (initial_estate ps) signals of
        Inl err \<Rightarrow> []
      | Inr s \<Rightarrow>
          if es_position s \<noteq> 0 then
            (if signals = [] then []
             else
               (let exit_price = fl (sr_price (last signals) * fl (1 - e_slippage ps));
                    cash_after = fl (fl (es_cash s + fl (exit_price * \<bar>es_position s\<bar>)) -
                                     exit_commission fl ps s exit_price)
                in es_trades s @
                     [closing_trade fl ps symbol s (sr_date (last signals)) exit_price cash_after]))
          else es_trades s)"

text \<open>What the claim gives for the net P&L of a trade: both commissions deducted.\<close>

definition claimed_net_pnl :: "eparams \<Rightarrow> etrade \<Rightarrow> real" where
  "claimed_net_pnl ps t =
     (et_exit_price t - et_entry_price t) * et_shares t
       - et_entry_price t * et_shares t * e_commission ps
       - et_exit_price t * et_shares t * e_commission ps"

text \<open>A buy at 100 followed by a flat signal at 110, with the default commission.\<close>

definition sample_signals :: "signal_row list" where
  "sample_signals =
     [\<lparr>sr_date = 0, sr_signal = Some 1, sr_price = 100\<rparr>,
      \<lparr>sr_date = 1, sr_signal = Some 0, sr_price = 110\<rparr>]"

definition sample_eparams :: eparams where
  "sample_eparams =
     \<lparr>e_initial_capital = 100000, e_commission = 0.001, e_slippage = 0,
      e_position_size = 0.1\<rparr>"



section \<open>Walk-forward analysis\<close>

text \<open>
  The loop of \<^verbatim>\<open>WalkForwardAnalyzer.run_walk_forward\<close> runs over
  \<^verbatim>\<open>range(0, len(data) - train_period - test_period, step_size)\<close>. A range counts up
  while the index is below the stop for a positive step, down while it is above the stop
  for a negative step, and cannot be built with step 0.
\<close>

function range_from :: "int \<Rightarrow> int \<Rightarrow> int \<Rightarrow> int list" where
  "range_from i stop step =
     (if (0 < step \<and> i < stop) \<or> (step < 0 \<and> stop < i)
      then i # range_from (i + step) stop step
      else [])"
  by pat_completeness auto
termination
  by (relation "measure (\<lambda>(i, stop, step). nat (if 0 < step then stop - i else i - stop))") auto

definition py_range :: "int \<Rightarrow> int \<Rightarrow> int \<Rightarrow> py_error + int list" where
  "py_range start stop step =
     (if step = 0 then Inl ValueError else Inr (range_from start stop step))"

record window =
  train_start :: int
  train_end :: int
  test_start :: int
  test_end :: int

definition window_at :: "nat \<Rightarrow> nat \<Rightarrow> int \<Rightarrow> window" where
  "window_at train_period test_period start_idx =
     \<lparr>train_start = start_idx,
      train_end = start_idx + int train_period,
      test_start = start_idx + int train_period,
      test_end = start_idx + int train_period + int test_period\<rparr>"

text \<open>
  The body of the loop trains the strategy on the training slice, backtests it on the
  test slice and labels the window with dates of the index. These are calls into the
  strategy object and the index, which are parameters: \<open>run_window\<close> gives the test
  results of a window, or the exception one of the calls raises. An exception leaves
  the loop; otherwise \<^verbatim>\<open>results\<close> gets one entry per start index.
\<close>

fun run_windows :: "(window \<Rightarrow> py_error + 'r) \<Rightarrow> window list \<Rightarrow> py_error + (window \<times> 'r) list" where
  "run_windows run_window [] = Inr []"
| "run_windows run_window (w # ws) =
     (case run_window w of
        Inl err \<Rightarrow> Inl err
      | Inr test_results \<Rightarrow>
          (case run_windows run_window ws of
             Inl err \<Rightarrow> Inl err
           | Inr rest \<Rightarrow> Inr ((w, test_results) # rest)))"

definition walk_forward_results ::
  "(window \<Rightarrow> py_error + 'r) \<Rightarrow> nat \<Rightarrow> nat \<Rightarrow> nat \<Rightarrow> int \<Rightarrow> py_error + (window \<times> 'r) list" where
  "walk_forward_results run_window len_data train_period test_period step_size =
     (case py_range 0 (int len_data - int train_period - int test_period) step_size of
        Inl err \<Rightarrow> Inl err
      | Inr starts \<Rightarrow> run_windows run_window (map (window_at train_period test_period) starts))"

text \<open>
  The \<^verbatim>\<open>total_periods\<close> entry of the analysis. An exception in the loop and an empty
  result list both end in the empty dictionary, which has no such entry; so does a
  result list in which no test result has a \<^verbatim>\<open>performance\<close> entry, where the minimum
  of an empty list raises inside the analysis.
\<close>

definition run_walk_forward_total_periods ::
  "(window \<Rightarrow> py_error + 'r) \<Rightarrow> ('r \<Rightarrow> bool) \<Rightarrow> nat \<Rightarrow> nat \<Rightarrow> nat \<Rightarrow> int \<Rightarrow> nat option" where
  "run_walk_forward_total_periods run_window has_performance len_data train_period test_period
     step_size =
     (case walk_forward_results run_window len_data train_period test_period step_size of
        Inl err \<Rightarrow> None
      | Inr results \<Rightarrow>
          if results = [] then None
          else if filter (\<lambda>wr. has_performance (snd wr)) results = [] then None
          else Some (length results))"

text \<open>A loop body that never raises.\<close>

definition never_raises :: "(window \<Rightarrow> py_error + 'r) \<Rightarrow> bool" where
  "never_raises run_window = (\<forall>w. \<exists>t. run_window w = Inr t)"

section \<open>Maximum drawdown\<close>

text \<open>The pandas operations on a series of finite floats.\<close>

fun cumprod_from :: "real \<Rightarrow> real list \<Rightarrow> real list" where
  "cumprod_from acc [] = []"
| "cumprod_from acc (x # xs) = (acc * x) # cumprod_from (acc * x) xs"

definition cumprod :: "real list \<Rightarrow> real list" where
  "cumprod xs = cumprod_from 1 xs"

fun expanding_max_from :: "real \<Rightarrow> real list \<Rightarrow> real list" where
  "expanding_max_from m [] = []"
| "expanding_max_from m (x # xs) = max m x # expanding_max_from (max m x) xs"

fun expanding_max :: "real list \<Rightarrow> real list" where
  "expanding_max [] = []"
| "expanding_max (x # xs) = x # expanding_max_from x xs"

text \<open>\<^verbatim>\<open>(values - running_max) / running_max\<close>, element by element.\<close>

definition drawdown :: "real list \<Rightarrow> real list \<Rightarrow> npfloat list" where
  "drawdown values running_max = map (\<lambda>vm. np_div (fst vm - snd vm) (snd vm)) (zip values running_max)"

text \<open>\<^verbatim>\<open>Series.min()\<close> skips NaN, and is NaN when nothing is left.\<close>

fun np_min2 :: "npfloat \<Rightarrow> npfloat \<Rightarrow> npfloat" where
  "np_min2 NegInf b = NegInf"
| "np_min2 a NegInf = NegInf"
| "np_min2 PosInf b = b"
| "np_min2 a PosInf = a"
| "np_min2 (Fin x) (Fin y) = Fin (min x y)"
| "np_min2 NaN b = b"
| "np_min2 a NaN = a"

definition series_min :: "npfloat list \<Rightarrow> npfloat" where
  "series_min xs =
     (case filter (\<lambda>x. x \<noteq> NaN) xs of
        [] \<Rightarrow> NaN
      | y # ys \<Rightarrow> foldl np_min2 y ys)"

text \<open>\<^verbatim>\<open>PerformanceAnalytics._calculate_max_drawdown\<close>, on a return series.\<close>

definition pa_calculate_max_drawdown :: "real list \<Rightarrow> npfloat" where
  "pa_calculate_max_drawdown returns =
     (let cumulative = cumprod (map (\<lambda>r. 1 + r) returns);
          running_max = expanding_max cumulative
      in series_min (drawdown cumulative running_max))"

text \<open>
  \<^verbatim>\<open>RiskManager._calculate_max_drawdown\<close>, on a return series: the same four lines
  inside a \<^verbatim>\<open>try\<close>. None of them raises on a series of floats, so the handler that
  returns 0.0 is not reached.
\<close>

definition rm_calculate_max_drawdown :: "real list \<Rightarrow> npfloat" where
  "rm_calculate_max_drawdown returns =
     (let cumulative = cumprod (map (\<lambda>r. 1 + r) returns);
          running_max = expanding_max cumulative;
          drawdown = drawdown cumulative running_max
      in series_min drawdown)"

text \<open>\<^verbatim>\<open>MonteCarloSimulator._calculate_max_drawdown\<close>, on a series of portfolio values.\<close>

definition mc_calculate_max_drawdown :: "real list \<Rightarrow> npfloat" where
  "mc_calculate_max_drawdown portfolio_values =
     (let running_max = expanding_max portfolio_values
      in series_min (drawdown portfolio_values running_max))"

text \<open>The portfolio values of a return series compounded from an initial capital.\<close>

definition portfolio_values_of :: "real \<Rightarrow> real list \<Rightarrow> real list" where
  "portfolio_values_of initial_capital returns =
     map (\<lambda>c. initial_capital * c) (cumprod (map (\<lambda>r. 1 + r) returns))"

section \<open>Result validator\<close>

text \<open>
  \<^verbatim>\<open>backtest_validator.py\<close> and \<^verbatim>\<open>backtest_validation_framework.py\<close> each define a class
  \<^verbatim>\<open>BacktestValidator\<close>. The reference table, the two tolerances and
  \<^verbatim>\<open>_validate_known_data_points\<close> are the same text in both files.
\<close>

subsection \<open>Data frames\<close>

text \<open>
  A row maps a column name to a cell; a data frame lists its rows under their index
  labels, in index order. A timestamp is written as its ISO date, as the keys of the
  reference table are before \<^verbatim>\<open>pd.to_datetime\<close> parses them.
\<close>

type_synonym row = "(string \<times> npfloat) list"
type_synonym dataframe = "(string \<times> row) list"

definition rows_at :: "dataframe \<Rightarrow> string \<Rightarrow> row list" where
  "rows_at df d = map snd (filter (\<lambda>kr. fst kr = d) df)"

definition cell :: "row \<Rightarrow> string \<Rightarrow> py_error + npfloat" where
  "cell r c = (case map_of r c of None \<Rightarrow> Inl KeyError | Some v \<Rightarrow> Inr v)"

subsection \<open>Known data points\<close>

record expected_data =
  ex_open :: real
  ex_close :: real
  ex_volume :: real

definition validation_data :: "(string \<times> (string \<times> expected_data) list) list" where
  "validation_data =
     [(''AAPL'',
        [(''2021-01-04'', \<lparr>ex_open = 133.52, ex_close = 129.41, ex_volume = 1433019\<rparr>),
         (''2021-12-31'', \<lparr>ex_open = 178.09, ex_close = 177.57, ex_volume = 1051585\<rparr>),
         (''2022-01-03'', \<lparr>ex_open = 177.83, ex_close = 182.01, ex_volume = 1044879\<rparr>)]),
      (''MSFT'',
        [(''2021-01-04'', \<lparr>ex_open = 222.42, ex_close = 217.69, ex_volume = 37130100\<rparr>),
         (''2021-12-31'', \<lparr>ex_open = 336.32, ex_close = 334.69, ex_volume = 21113900\<rparr>),
         (''2022-01-03'', \<lparr>ex_open = 334.69, ex_close = 336.78, ex_volume = 25892900\<rparr>)])]"

definition price_tolerance :: real where
  "price_tolerance = 0.001"

definition volume_tolerance :: real where
  "volume_tolerance = 0.10"

text \<open>
  \<^verbatim>\<open>abs(cell - expected) / expected\<close>, a numpy division. The deviation and its
  comparison with the tolerance are exact here: a row whose deviation is within a
  rounding error of the tolerance itself may be judged otherwise by the floats.
\<close>

fun rel_dev :: "npfloat \<Rightarrow> real \<Rightarrow> npfloat" where
  "rel_dev (Fin x) e = np_div \<bar>x - e\<bar> e"
| "rel_dev NaN e = NaN"
| "rel_dev PosInf e = (if 0 < e then PosInf else if e < 0 then NegInf else NaN)"
| "rel_dev NegInf e = (if 0 < e then PosInf else if e < 0 then NegInf else NaN)"

text \<open>\<^verbatim>\<open>x <= t\<close> for a float \<open>x\<close> that may be infinite or NaN.\<close>

fun np_le :: "npfloat \<Rightarrow> real \<Rightarrow> bool" where
  "np_le (Fin x) t = (x \<le> t)"
| "np_le NegInf t = True"
| "np_le PosInf t = False"
| "np_le NaN t = False"

definition row_within_tolerance :: "row \<Rightarrow> expected_data \<Rightarrow> py_error + bool" where
  "row_within_tolerance r e =
     (case cell r ''Open'' of Inl err \<Rightarrow> Inl err | Inr op \<Rightarrow>
      case cell r ''Close'' of Inl err \<Rightarrow> Inl err | Inr cl \<Rightarrow>
      case cell r ''Volume'' of Inl err \<Rightarrow> Inl err | Inr vol \<Rightarrow>
        Inr (np_le (rel_dev op (ex_open e)) price_tolerance \<and>
             np_le (rel_dev cl (ex_close e)) price_tolerance \<and>
             np_le (rel_dev vol (ex_volume e)) volume_tolerance))"

text \<open>
  One turn of the loop over the known points: whether \<^verbatim>\<open>correct_points\<close> is incremented.
  A date missing from the index is passed over. Under a label that occurs twice
  \<^verbatim>\<open>df.loc[date]\<close> is a frame, the comparison of its columns has no truth value and
  raises; the \<^verbatim>\<open>except\<close> clause logs every exception and goes on to the next point.
\<close>

definition point_checked :: "dataframe \<Rightarrow> string \<Rightarrow> expected_data \<Rightarrow> py_error + bool" where
  "point_checked df date_str e =
     (case rows_at df date_str of
        [] \<Rightarrow> Inr False
      | [r] \<Rightarrow> row_within_tolerance r e
      | _ \<Rightarrow> Inl ValueError)"

definition point_correct :: "dataframe \<Rightarrow> string \<Rightarrow> expected_data \<Rightarrow> bool" where
  "point_correct df date_str e =
     (case point_checked df date_str e of Inl err \<Rightarrow> False | Inr b \<Rightarrow> b)"

definition validate_known_data_points :: "string \<Rightarrow> dataframe \<Rightarrow> real" where
  "validate_known_data_points symbol df =
     (case map_of validation_data symbol of
        None \<Rightarrow> 1
      | Some known_points \<Rightarrow>
          (let correct_points = length (filter (\<lambda>de. point_correct df (fst de) (snd de)) known_points);
               total_points = length known_points
           in if total_points > 0 then real correct_points / real total_points else 1))"







subsection \<open>Validation results and accuracy metrics\<close>

text \<open>The \<^verbatim>\<open>details\<close> dictionary of a result holds diagnostics only and is left out.\<close>

record ValidationResult =
  test_name :: string
  passed :: bool
  score :: real
  error_message :: "string option"
  recommendations :: "string list"

record AccuracyMetrics =
  data_accuracy :: real
  calculation_accuracy :: real
  strategy_accuracy :: real
  overall_accuracy :: real
  confidence_level :: real
  validation_score :: real

text \<open>\<^verbatim>\<open>_calculate_accuracy_metrics\<close> of \<^verbatim>\<open>backtest_validation_framework.py\<close>.\<close>

definition calculate_accuracy_metrics_framework ::
  "(string \<rightharpoonup> ValidationResult) \<Rightarrow> py_error + AccuracyMetrics" where
  "calculate_accuracy_metrics_framework validation_results =
     (case validation_results ''data_validation'' of None \<Rightarrow> Inl KeyError | Some dv \<Rightarrow>
      case validation_results ''calculation_validation'' of None \<Rightarrow> Inl KeyError | Some cv \<Rightarrow>
      case validation_results ''strategy_validation'' of None \<Rightarrow> Inl KeyError | Some sv \<Rightarrow>
        (let overall = (score dv + score cv + score sv) / 3
         in Inr \<lparr>data_accuracy = score dv,
                 calculation_accuracy = score cv,
                 strategy_accuracy = score sv,
                 overall_accuracy = overall,
                 confidence_level = min 1 (overall * 1.1),
                 validation_score = score dv * 0.3 + score cv * 0.4 + score sv * 0.3\<rparr>))"

text \<open>\<^verbatim>\<open>_calculate_accuracy_metrics\<close> of \<^verbatim>\<open>backtest_validator.py\<close>: two categories are
  averaged, and \<^verbatim>\<open>strategy_accuracy\<close> is the constant the source marks as a placeholder.\<close>

definition calculate_accuracy_metrics_validator ::
  "(string \<rightharpoonup> ValidationResult) \<Rightarrow> py_error + AccuracyMetrics" where
  "calculate_accuracy_metrics_validator validation_results =
     (case validation_results ''data_validation'' of None \<Rightarrow> Inl KeyError | Some dv \<Rightarrow>
      case validation_results ''calculation_validation'' of None \<Rightarrow> Inl KeyError | Some cv \<Rightarrow>
        (let overall = (score dv + score cv) / 2
         in Inr \<lparr>data_accuracy = score dv,
                 calculation_accuracy = score cv,
                 strategy_accuracy = 1,
                 overall_accuracy = overall,
                 confidence_level = min 1 (overall * 1.1),
                 validation_score = score dv * 0.4 + score cv * 0.6\<rparr>))"

text \<open>A sample of category results, each with the given score.\<close>

definition sample_result :: "real \<Rightarrow> ValidationResult" where
  "sample_result s =
     \<lparr>test_name = ''sample'', passed = True, score = s, error_message = None,
      recommendations = []\<rparr>"

definition sample_results :: "string \<rightharpoonup> ValidationResult" where
  "sample_results =
     map_of [(''data_validation'', sample_result 0.9),
             (''calculation_validation'', sample_result 0.6),
             (''strategy_validation'', sample_result 0.3)]"

subsection \<open>Calculation validation\<close>

text \<open>
  \<^verbatim>\<open>validate_calculations\<close> of \<^verbatim>\<open>backtest_validator.py\<close>. The result payload is a
  dictionary read with \<^verbatim>\<open>get\<close>: an absent key is \<open>None\<close>. Of each sub-validation only
  the \<^verbatim>\<open>score\<close> entry is used. The numbers of a payload are Python floats, whose division
  by zero raises.
\<close>

record vtrade =
  vt_entry_price :: real
  vt_exit_price :: real
  vt_quantity :: real
  vt_pnl :: real

record performance =
  perf_total_trades :: "int option"
  perf_winning_trades :: "int option"
  perf_total_pnl :: "real option"

record backtest_results =
  br_trades :: "vtrade list option"
  br_portfolio_value :: "real list option"
  br_performance :: "performance option"

definition trade_pnl_ok :: "vtrade \<Rightarrow> bool" where
  "trade_pnl_ok t =
     (let entry_cost = vt_entry_price t * vt_quantity t * (1 + 0.001);
          exit_value = vt_exit_price t * vt_quantity t * (1 - 0.001);
          expected_pnl = exit_value - entry_cost;
          actual_pnl = vt_pnl t;
          pnl_tolerance = (if expected_pnl \<noteq> 0
                           then \<bar>expected_pnl - actual_pnl\<bar> / \<bar>expected_pnl\<bar> else 0)
      in pnl_tolerance \<le> 0.05)"

definition validate_trade_calculations :: "vtrade list \<Rightarrow> real" where
  "validate_trade_calculations trades =
     (if trades = [] then 0
      else real (length (filter trade_pnl_ok trades)) / real (length trades))"

fun calculated_values :: "real \<Rightarrow> vtrade list \<Rightarrow> real list" where
  "calculated_values current_value [] = [current_value]"
| "calculated_values current_value (t # ts) =
     current_value # calculated_values (current_value + vt_pnl t) ts"

fun count_correct_values :: "(real \<times> real) list \<Rightarrow> py_error + nat" where
  "count_correct_values [] = Inr 0"
| "count_correct_values ((c, v) # cvs) =
     (if v = 0 then Inl ZeroDivisionError
      else case count_correct_values cvs of
             Inl err \<Rightarrow> Inl err
           | Inr n \<Rightarrow> Inr (if \<bar>c - v\<bar> / v \<le> 0.05 then Suc n else n))"

definition validate_portfolio_calculations ::
  "vtrade list \<Rightarrow> real list \<Rightarrow> real \<Rightarrow> py_error + real" where
  "validate_portfolio_calculations trades portfolio_values initial_capital =
     (if portfolio_values = [] then Inr 0
      else
        (let calculated = calculated_values initial_capital trades;
             min_length = min (length calculated) (length portfolio_values)
         in case count_correct_values (zip calculated portfolio_values) of
              Inl err \<Rightarrow> Inl err
            | Inr correct_values \<Rightarrow>
                Inr (if min_length > 0 then real correct_values / real min_length else 0)))"

definition validate_performance_metrics :: "backtest_results \<Rightarrow> real" where
  "validate_performance_metrics r =
     (let trades = (case br_trades r of None \<Rightarrow> [] | Some ts \<Rightarrow> ts);
          perf = (case br_performance r of
                    None \<Rightarrow> \<lparr>perf_total_trades = None, perf_winning_trades = None,
                              perf_total_pnl = None\<rparr>
                  | Some p \<Rightarrow> p)
      in if trades = [] then 0
         else
           (let actual_total_trades = (case perf_total_trades perf of None \<Rightarrow> 0 | Some n \<Rightarrow> n);
                actual_winning_trades = (case perf_winning_trades perf of None \<Rightarrow> 0 | Some n \<Rightarrow> n);
                actual_total_pnl = (case perf_total_pnl perf of None \<Rightarrow> 0 | Some x \<Rightarrow> x);
                expected_total_pnl = sum_list (map vt_pnl trades);
                pnl_tolerance = (if expected_total_pnl \<noteq> 0
                                 then \<bar>expected_total_pnl - actual_total_pnl\<bar> / \<bar>expected_total_pnl\<bar>
                                 else 0);
                correct_metrics =
                  (if int (length trades) = actual_total_trades then 1 else 0) +
                  (if int (length (filter (\<lambda>t. vt_pnl t > 0) trades)) = actual_winning_trades
                   then 1 else 0) +
                  (if pnl_tolerance \<le> 0.05 then 1 else (0::nat))
            in real correct_metrics / 3))"

definition calculation_accuracy_threshold :: real where
  "calculation_accuracy_threshold = 0.60"

definition validate_calculations :: "backtest_results \<Rightarrow> py_error + ValidationResult" where
  "validate_calculations r =
     (let trades = (case br_trades r of None \<Rightarrow> [] | Some ts \<Rightarrow> ts);
          portfolio_values = (case br_portfolio_value r of None \<Rightarrow> [] | Some vs \<Rightarrow> vs)
      in case (case br_portfolio_value r of None \<Rightarrow> [100000] | Some vs \<Rightarrow> vs) of
           [] \<Rightarrow> Inl IndexError
         | initial_capital # _ \<Rightarrow>
             if trades = [] then
               Inr \<lparr>test_name = ''Calculation Validation'', passed = False, score = 0,
                    error_message = Some ''No trades to validate'',
                    recommendations = [''Ensure strategy generates trades'',
                                       ''Check strategy parameters'']\<rparr>
             else
               (case validate_portfolio_calculations trades portfolio_values initial_capital of
                  Inl err \<Rightarrow> Inl err
                | Inr portfolio_score \<Rightarrow>
                    (let overall_score =
                           (validate_trade_calculations trades + portfolio_score +
                            validate_performance_metrics r) / 3
                     in Inr \<lparr>test_name = ''Calculation Validation'',
                             passed = (overall_score \<ge> calculation_accuracy_threshold),
                             score = overall_score,
                             error_message = None,
                             recommendations =
                               (if overall_score < calculation_accuracy_threshold
                                then [''Calculation accuracy below threshold'',
                                      ''Review trade P&L calculations'',
                                      ''Verify portfolio value calculations'']
                                else [])\<rparr>)))"

section \<open>Properties of the polygon engine's momentum run\<close>


lemma rounds_keeps_sign:
  assumes "rounds u fl" "u \<le> 1"
  shows "keeps_sign fl"
  unfolding keeps_sign_def
proof (intro allI impI)
  fix x :: real
  assume x: "0 \<le> x"
  from assms(1) have "\<bar>fl x - x\<bar> \<le> u * \<bar>x\<bar>" by (simp add: rounds_def)
  then have "x - u * x \<le> fl x" using x by (simp add: abs_le_iff)
  moreover have "u * x \<le> 1 * x"
    using x assms(2) by (intro mult_right_mono) simp_all
  then have "0 \<le> x - u * x" by simp
  ultimately show "0 \<le> fl x" by linarith
qed








lemma open_position_eq:
  "open_position fl ps date r c =
     (let position_value = fl (res_cash r * p_position_size ps);
          quantity = fl (position_value / cand_price c);
          cost = fl (fl (quantity * cand_price c) * fl (1 + p_commission ps))
      in if cand_price c \<noteq> 0 \<and> 0 < quantity \<and> cost \<le> res_cash r
         then r\<lparr>res_positions := res_positions r @
                   [(cand_symbol c, \<lparr>pos_quantity = quantity, pos_entry_price = cand_price c,
                                      pos_entry_date = date, pos_cost = cost\<rparr>)],
                 res_cash := fl (res_cash r - cost)\<rparr>
         else r)"
  by (simp add: open_position_def fl_div_def entry_cost_def Let_def)














text \<open>When no frame has a row there is no date to simulate, and the run returns its
  initial results: no trade and no portfolio value.\<close>

lemma momentum_run_without_dates:
  "run_momentum_strategy fl [(symbol, [])] ps cfg = Inr (initial_results ps) \<and>
   res_trades (initial_results ps) = [] \<and> res_portfolio_value (initial_results ps) = []"
  by (simp add: run_momentum_strategy_def all_dates_def initial_results_def)

text \<open>
  In exact arithmetic every trade the momentum run records has the net P&L of the
  specification: the position was costed with the entry commission, and the exit value
  carries the exit commission.
\<close>

lemma record_value_ledger:
  "res_trades (record_value fl data date r) = res_trades r \<and>
   res_positions (record_value fl data date r) = res_positions r"
  by (simp add: record_value_def Let_def)

lemma exit_position_ledger:
  assumes "exact fl"
    and "list_all (balanced ps) (res_trades r)" "costed ps (res_positions r)" "costed ps [sp]"
  shows "list_all (balanced ps) (res_trades (exit_position fl data ps cfg date r sp)) \<and>
         costed ps (res_positions (exit_position fl data ps cfg date r sp))"
proof (cases "close_on data (fst sp) date")
  case None
  then show ?thesis using assms(2,3) by (simp add: exit_position_def)
next
  case (Some price)
  have c: "pos_cost (snd sp) =
           pos_quantity (snd sp) * pos_entry_price (snd sp) * (1 + p_commission ps)"
    using assms(4) by (simp add: costed_def)
  have x: "\<And>y. fl y = y" using assms(1) by (simp add: exact_def)
  have b: "balanced ps
      \<lparr>tr_symbol = fst sp, tr_entry_date = pos_entry_date (snd sp), tr_exit_date = date,
       tr_entry_price = pos_entry_price (snd sp), tr_exit_price = price,
       tr_quantity = pos_quantity (snd sp),
       tr_pnl = pos_quantity (snd sp) * price * (1 - p_commission ps) - pos_cost (snd sp),
       tr_pnl_pct = fl_div fl (pos_quantity (snd sp) * price * (1 - p_commission ps) - pos_cost (snd sp))
                      (pos_cost (snd sp))\<rparr>"
    by (simp add: balanced_def c algebra_simps)
  have f: "costed ps (filter (\<lambda>sq. fst sq \<noteq> fst sp) (res_positions r))"
    using assms(3) by (simp add: costed_def list_all_iff)
  show ?thesis
    using assms(2,3) b f Some by (simp add: exit_position_def exit_value_of_def x Let_def)
qed

lemma check_exits_ledger_aux:
  "exact fl \<Longrightarrow>
   list_all (balanced ps) (res_trades r) \<Longrightarrow> costed ps (res_positions r) \<Longrightarrow> costed ps xs \<Longrightarrow>
   list_all (balanced ps) (res_trades (foldl (exit_position fl data ps cfg date) r xs)) \<and>
   costed ps (res_positions (foldl (exit_position fl data ps cfg date) r xs))"
proof (induction xs arbitrary: r)
  case Nil
  then show ?case by simp
next
  case (Cons sp xs)
  have 1: "costed ps [sp]" and 2: "costed ps xs"
    using Cons.prems(4) by (simp_all add: costed_def)
  from exit_position_ledger[OF Cons.prems(1,2,3) 1, of data cfg date]
  show ?case using Cons.IH[OF Cons.prems(1) _ _ 2] by simp
qed

lemma open_position_ledger:
  assumes "exact fl" "costed ps (res_positions r)"
  shows "res_trades (open_position fl ps date r c) = res_trades r \<and>
         costed ps (res_positions (open_position fl ps date r c))"
  using assms by (auto simp: open_position_eq costed_def exact_def Let_def)

lemma open_positions_ledger:
  "exact fl \<Longrightarrow> costed ps (res_positions r) \<Longrightarrow>
   res_trades (foldl (open_position fl ps date) r cs) = res_trades r \<and>
   costed ps (res_positions (foldl (open_position fl ps date) r cs))"
proof (induction cs arbitrary: r)
  case Nil
  then show ?case by simp
next
  case (Cons c cs)
  from open_position_ledger[OF Cons.prems, of date c]
  show ?case using Cons.IH[OF Cons.prems(1), of "open_position fl ps date r c"] by simp
qed

lemma day_step_ledger:
  assumes "exact fl"
    and "list_all (balanced ps) (res_trades r)" "costed ps (res_positions r)"
    and "day_step fl data ps cfg r date = Inr r'"
  shows "list_all (balanced ps) (res_trades r') \<and> costed ps (res_positions r')"
proof -
  let ?r1 = "record_value fl data date r"
  let ?r2 = "check_exits fl data ps cfg date ?r1"
  have 1: "list_all (balanced ps) (res_trades ?r1)" "costed ps (res_positions ?r1)"
    using assms(2,3) by (simp_all add: record_value_ledger)
  have 2: "list_all (balanced ps) (res_trades ?r2) \<and> costed ps (res_positions ?r2)"
    unfolding check_exits_def by (rule check_exits_ledger_aux[OF assms(1) 1 1(2)])
  from assms(4) have e: "check_entries fl data ps cfg date ?r2 = Inr r'"
    by (simp add: day_step_def)
  show ?thesis
  proof (cases "int (length (res_positions ?r2)) < p_max_positions ps")
    case True
    then obtain cs where "r' = foldl (open_position fl ps date) ?r2 cs"
      using e by (auto simp: check_entries_def split: sum.splits)
    then show ?thesis using open_positions_ledger[OF assms(1), of ps ?r2 date cs] 2 by simp
  next
    case False
    then show ?thesis using e 2 by (simp add: check_entries_def)
  qed
qed

lemma run_days_ledger:
  "exact fl \<Longrightarrow>
   list_all (balanced ps) (res_trades r) \<Longrightarrow> costed ps (res_positions r) \<Longrightarrow>
   run_days fl data ps cfg r dates = Inr r' \<Longrightarrow>
   list_all (balanced ps) (res_trades r') \<and> costed ps (res_positions r')"
proof (induction dates arbitrary: r)
  case Nil
  then show ?case by simp
next
  case (Cons date dates)
  from Cons.prems(4) obtain r1 where r1: "day_step fl data ps cfg r date = Inr r1"
    "run_days fl data ps cfg r1 dates = Inr r'"
    by (auto split: sum.splits)
  from day_step_ledger[OF Cons.prems(1,2,3) r1(1)] Cons.IH[OF Cons.prems(1) _ _ r1(2)]
  show ?case by simp
qed

lemma polygon_trades_balanced:
  assumes "exact fl" "run_momentum_strategy fl data ps cfg = Inr r"
  shows "list_all (balanced ps) (res_trades r)"
  using run_days_ledger[OF assms(1), of ps "initial_results ps" data cfg "all_dates data" r]
    assms(2)
  by (simp add: run_momentum_strategy_def initial_results_def costed_def)

lemma exact_id: "exact id"
  by (simp add: exact_def)

section \<open>Properties of the enhanced engine's trade execution\<close>

text \<open>
  Every trade of \<^verbatim>\<open>_execute_trades\<close> is built by the closing lines. In exact arithmetic
  its net P&L is above the claimed one by the entry commission, which was taken from the
  cash only.
\<close>

lemma closing_trade_net:
  assumes "exact fl"
  shows "et_net_pnl (closing_trade fl ps symbol s date exit_price cash_after) =
     claimed_net_pnl ps (closing_trade fl ps symbol s date exit_price cash_after) +
     es_entry_price s * \<bar>es_position s\<bar> * e_commission ps"
proof -
  have x: "\<And>y. fl y = y" using assms by (simp add: exact_def)
  show ?thesis
    by (simp add: closing_trade_def exit_commission_def claimed_net_pnl_def x Let_def
        algebra_simps)
qed

text \<open>
  C1 at the failing input, in exact arithmetic: 100 shares bought at 100 and closed at
  110 with commission rate 0.001. The recorded net P&L is 1000 - 11 = 989; the claim
  gives 1000 - 10 - 11 = 979.
\<close>

theorem enhanced_net_pnl_omits_entry_commission:
  "map et_net_pnl (execute_trades id sample_signals ''AAPL'' sample_eparams) = [989] \<and>
   map (claimed_net_pnl sample_eparams) (execute_trades id sample_signals ''AAPL'' sample_eparams)
     = [979]"
  by (simp add: execute_trades_def sample_signals_def sample_eparams_def initial_estate_def
      row_step_def execution_price_of_def close_if_changed_def open_if_flat_def entry_shares_def
      entry_outlay_def exit_commission_def fl_div_def closing_trade_def claimed_net_pnl_def
      Let_def)

section \<open>Position sizing\<close>



text \<open>Bounds on a rounded value under the standard model.\<close>

lemma rounds_bounds:
  assumes "rounds u fl" "0 \<le> x"
  shows "x - u * x \<le> fl x" and "fl x \<le> x + u * x"
proof -
  from assms(1) have "\<bar>fl x - x\<bar> \<le> u * \<bar>x\<bar>" by (simp add: rounds_def)
  then have "\<bar>fl x - x\<bar> \<le> u * x" using assms(2) by simp
  then show "x - u * x \<le> fl x" and "fl x \<le> x + u * x"
    by (simp_all add: abs_le_iff)
qed

lemma rounds_interval:
  assumes "rounds u fl" "0 \<le> u" "u \<le> 1 / 1000" "0 \<le> lo" "lo \<le> x" "x \<le> hi"
  shows "lo * (999 / 1000) \<le> fl x" and "fl x \<le> hi * (1001 / 1000)"
proof -
  have x0: "0 \<le> x" using assms(4,5) by simp
  have "u * x \<le> (1 / 1000) * x"
    using assms(3) x0 by (intro mult_right_mono) simp_all
  then have "x * (999 / 1000) \<le> x - u * x" and "x + u * x \<le> x * (1001 / 1000)"
    by simp_all
  moreover have "lo * (999 / 1000) \<le> x * (999 / 1000)" and "x * (1001 / 1000) \<le> hi * (1001 / 1000)"
    using assms(5,6) by simp_all
  ultimately show "lo * (999 / 1000) \<le> fl x" and "fl x \<le> hi * (1001 / 1000)"
    using rounds_bounds[OF assms(1) x0] by linarith+
qed


lemma rounds_id: "rounds 0 id"
  by (simp add: rounds_def)

text \<open>
  The polygon entry of the scenario under any rounding with unit roundoff at most
  1/1000: the position is opened with a quantity strictly between 45 and 46.
\<close>

lemma polygon_quantity_scenario:
  assumes "rounds u fl" "0 \<le> u" "u \<le> 1 / 1000" "res_cash r = 10000"
  shows "\<exists>q cost. open_position fl test_params date r test_candidate =
           r\<lparr>res_positions := res_positions r @
                 [(''TEST'', \<lparr>pos_quantity = q, pos_entry_price = 110, pos_entry_date = date,
                              pos_cost = cost\<rparr>)],
             res_cash := fl (10000 - cost)\<rparr> \<and> 45 < q \<and> q < 46"
proof -
  note ri = rounds_interval[OF assms(1,2,3)]
  let ?pv = "fl 5000"
  let ?q = "fl (?pv / 110)"
  let ?cost = "fl (fl (?q * 110) * fl 1)"
  have pv: "4995 \<le> ?pv" "?pv \<le> 5005"
    using ri[of 5000 5000 5000] by simp_all
  have q0: "454 / 10 \<le> ?pv / 110" "?pv / 110 \<le> 455 / 10"
    using pv by simp_all
  have q: "453 / 10 \<le> ?q" "?q \<le> 456 / 10"
  proof -
    from ri(1)[of "454 / 10" "?pv / 110" "455 / 10"] q0
    have "(454 / 10) * (999 / 1000) \<le> ?q" by simp
    then show "453 / 10 \<le> ?q" by simp
    from ri(2)[of "454 / 10" "?pv / 110" "455 / 10"] q0
    have "?q \<le> (455 / 10) * (1001 / 1000)" by simp
    then show "?q \<le> 456 / 10" by simp
  qed
  have m0: "4983 \<le> ?q * 110" "?q * 110 \<le> 5016"
    using q by simp_all
  have m: "4970 \<le> fl (?q * 110)" "fl (?q * 110) \<le> 5030"
  proof -
    from ri(1)[of 4983 "?q * 110" 5016] m0
    have "4983 * (999 / 1000) \<le> fl (?q * 110)" by simp
    then show "4970 \<le> fl (?q * 110)" by simp
    from ri(2)[of 4983 "?q * 110" 5016] m0
    have "fl (?q * 110) \<le> 5016 * (1001 / 1000)" by simp
    then show "fl (?q * 110) \<le> 5030" by simp
  qed
  have one: "999 / 1000 \<le> fl 1" "fl 1 \<le> 1001 / 1000"
    using ri[of 1 1 1] by simp_all
  have p0: "0 \<le> fl (?q * 110) * fl 1" "fl (?q * 110) * fl 1 \<le> 5040"
  proof -
    show "0 \<le> fl (?q * 110) * fl 1" using m(1) one(1) by simp
    have "fl (?q * 110) * fl 1 \<le> 5030 * (1001 / 1000)"
      using m one by (intro mult_mono) simp_all
    then show "fl (?q * 110) * fl 1 \<le> 5040" by simp
  qed
  have cost: "?cost \<le> 10000"
  proof -
    from ri(2)[of 0 "fl (?q * 110) * fl 1" 5040] p0
    have "?cost \<le> 5040 * (1001 / 1000)" by simp
    then show ?thesis by simp
  qed
  have "open_position fl test_params date r test_candidate =
           r\<lparr>res_positions := res_positions r @
                 [(''TEST'', \<lparr>pos_quantity = ?q, pos_entry_price = 110, pos_entry_date = date,
                              pos_cost = ?cost\<rparr>)],
             res_cash := fl (10000 - ?cost)\<rparr>"
    using q(1) cost assms(4)
    by (simp add: open_position_eq test_params_def test_candidate_def Let_def)
  moreover have "45 < ?q" "?q < 46" using q by simp_all
  ultimately show ?thesis by blast
qed



section \<open>Properties of the walk-forward analysis\<close>

lemma div_below_divisor_nonpos:
  fixes a b :: int
  assumes "a < b" "0 < b"
  shows "a div b \<le> 0"
proof -
  have "a div b \<le> (b - 1) div b"
    using assms by (intro zdiv_mono1) simp_all
  also have "(b - 1) div b = 0"
    using assms by (simp add: div_pos_pos_trivial)
  finally show ?thesis .
qed

lemma range_from_length:
  "0 < step \<Longrightarrow> length (range_from i stop step) = nat ((stop - i + step - 1) div step)"
proof (induction i stop step rule: range_from.induct)
  case (1 i stop step)
  show ?case
  proof (cases "i < stop")
    case True
    have "(stop - (i + step) + step - 1 + step) div step =
          (stop - (i + step) + step - 1) div step + 1"
      using "1.prems" by (simp only: div_add_self2)
    then have e: "(stop - i + step - 1) div step = (stop - (i + step) + step - 1) div step + 1"
      by (simp add: algebra_simps)
    have nn: "0 \<le> (stop - (i + step) + step - 1) div step"
      using True "1.prems" by (simp add: pos_imp_zdiv_nonneg_iff)
    have "length (range_from i stop step) = Suc (length (range_from (i + step) stop step))"
      using True "1.prems" by (subst range_from.simps) simp
    also have "\<dots> = Suc (nat ((stop - (i + step) + step - 1) div step))"
      using "1.IH" True "1.prems" by simp
    also have "\<dots> = nat ((stop - i + step - 1) div step)"
      using e nn by simp
    finally show ?thesis .
  next
    case False
    then have "stop - i + step - 1 < step" by simp
    then have "(stop - i + step - 1) div step \<le> 0"
      using "1.prems" by (intro div_below_divisor_nonpos) simp_all
    moreover have "range_from i stop step = []"
      using False "1.prems" by (subst range_from.simps) simp
    ultimately show ?thesis by simp
  qed
qed

lemma div_of_multiple_minus_one:
  fixes step k :: int
  assumes "0 < step"
  shows "(step * k - 1) div step = k - 1"
proof -
  have "(step * k + (- 1)) div step = k + (- 1) div step"
    using assms by (simp only: div_mult_self4)
  then show ?thesis using assms by (simp add: div_eq_minus1)
qed

lemma div_pred_not_dvd:
  fixes d step :: int
  assumes "0 < step" "\<not> step dvd d"
  shows "(d - 1) div step = d div step"
proof -
  have "d mod step \<noteq> 0" using assms(2) by (simp add: dvd_eq_mod_eq_0)
  moreover have "0 \<le> d mod step" using assms(1) by simp
  ultimately have m: "1 \<le> d mod step" by linarith
  have m2: "d mod step < step" using assms(1) by simp
  have "(step * (d div step) + (d mod step - 1)) div step =
        d div step + (d mod step - 1) div step"
    using assms(1) by (simp only: div_mult_self4)
  moreover have "step * (d div step) + (d mod step - 1) = d - 1"
    by (simp add: algebra_simps)
  moreover have "(d mod step - 1) div step = 0"
    using m m2 by (simp add: div_pos_pos_trivial)
  ultimately show ?thesis by simp
qed

lemma ceil_vs_floor:
  fixes d step :: int
  assumes "0 < step"
  shows "(d + step - 1) div step = d div step + 1 \<longleftrightarrow> \<not> step dvd d"
proof -
  have "(d - 1 + step) div step = (d - 1) div step + 1"
    using assms by (simp only: div_add_self2)
  then have a: "(d + step - 1) div step = (d - 1) div step + 1"
    by (simp add: algebra_simps)
  show ?thesis
  proof (cases "step dvd d")
    case True
    then obtain k where k: "d = step * k" by (auto simp: dvd_def)
    show ?thesis using a True div_of_multiple_minus_one[OF assms, of k] assms
      by (simp add: k)
  next
    case False
    show ?thesis using a False div_pred_not_dvd[OF assms False] by simp
  qed
qed

text \<open>What the loop produces when its body never raises: the ceiling of the quotient,
  not its floor plus one.\<close>

lemma run_windows_length:
  assumes "never_raises run_window"
  shows "\<exists>results. run_windows run_window ws = Inr results \<and> length results = length ws"
proof (induction ws)
  case Nil
  then show ?case by simp
next
  case (Cons w ws)
  obtain t where t: "run_window w = Inr t"
    using assms unfolding never_raises_def by blast
  from Cons.IH obtain rest where "run_windows run_window ws = Inr rest" "length rest = length ws"
    by blast
  then show ?case using t by simp
qed

lemma walk_forward_results_eq:
  "step_size \<noteq> 0 \<Longrightarrow>
   walk_forward_results run_window n train_period test_period step_size =
     run_windows run_window
       (map (window_at train_period test_period)
          (range_from 0 (int n - int train_period - int test_period) step_size))"
  by (simp add: walk_forward_results_def py_range_def)

lemma walk_forward_count:
  assumes "0 < step_size" "never_raises run_window"
  shows "\<exists>results. walk_forward_results run_window n train_period test_period step_size
                     = Inr results \<and>
           int (length results) =
             (if int train_period + int test_period \<le> int n
              then (int n - int train_period - int test_period + step_size - 1) div step_size
              else 0)"
proof -
  define d where "d = int n - int train_period - int test_period"
  have len: "length (range_from 0 d step_size) = nat ((d + step_size - 1) div step_size)"
    using range_from_length[OF assms(1), of 0 d] by simp
  have "int (nat ((d + step_size - 1) div step_size)) =
        (if 0 \<le> d then (d + step_size - 1) div step_size else 0)"
  proof (cases "0 \<le> d")
    case True
    then have "0 \<le> (d + step_size - 1) div step_size"
      using assms(1) by (simp add: pos_imp_zdiv_nonneg_iff)
    then show ?thesis using True by simp
  next
    case False
    then have "d + step_size - 1 < step_size" by simp
    then have "(d + step_size - 1) div step_size \<le> 0"
      using assms(1) by (rule div_below_divisor_nonpos)
    then show ?thesis using False by simp
  qed
  moreover have "(0 \<le> d) = (int train_period + int test_period \<le> int n)"
    unfolding d_def by linarith
  ultimately have l: "int (length (range_from 0 d step_size)) =
             (if int train_period + int test_period \<le> int n
              then (d + step_size - 1) div step_size else 0)"
    using len by simp
  have e: "walk_forward_results run_window n train_period test_period step_size =
      run_windows run_window
        (map (window_at train_period test_period) (range_from 0 d step_size))"
    unfolding d_def using assms(1) by (intro walk_forward_results_eq) simp
  from run_windows_length[OF assms(2),
      of "map (window_at train_period test_period) (range_from 0 d step_size)"]
  obtain results where r: "run_windows run_window
        (map (window_at train_period test_period) (range_from 0 d step_size)) = Inr results"
    "length results = length (range_from 0 d step_size)"
    by auto
  show ?thesis
    using e r l unfolding d_def by simp
qed

lemma walk_forward_count_matches_claim_iff:
  assumes "0 < step_size" "never_raises run_window"
    and "int train_period + int test_period \<le> int n"
    and "walk_forward_results run_window n train_period test_period step_size = Inr results"
  shows "int (length results) = (int n - int train_period - int test_period) div step_size + 1
         \<longleftrightarrow> \<not> step_size dvd (int n - int train_period - int test_period)"
  using walk_forward_count[OF assms(1,2), of n train_period test_period] assms(3,4)
    ceil_vs_floor[OF assms(1), of "int n - int train_period - int test_period"]
  by auto

text \<open>
  C3 at the failing input: 315 bars with the default windows (252, 63, step 21). One
  window fits (start 0, test range ending at bar 315) and the claimed count is
  floor(0 / 21) + 1 = 1, but the range stops before start 0 + 252 + 63 = 315 reaches the
  length, so the loop body never runs, whatever the strategy does in it, and the
  analysis is the empty dictionary.
\<close>

theorem walk_forward_misses_last_window:
  "walk_forward_results run_window 315 252 63 21 = Inr [] \<and>
   run_walk_forward_total_periods run_window has_performance 315 252 63 21 = None \<and>
   (int 315 - int 252 - int 63) div 21 + 1 = 1"
proof -
  have "range_from 0 0 21 = []" by (subst range_from.simps) simp
  then have "walk_forward_results run_window 315 252 63 21 = Inr []"
    by (simp add: walk_forward_results_def py_range_def)
  then show ?thesis by (simp add: run_walk_forward_total_periods_def)
qed

section \<open>Properties of the maximum drawdown\<close>

lemma expanding_max_from_scale:
  "0 < (c::real) \<Longrightarrow>
   expanding_max_from (c * m) (map (\<lambda>x. c * x) xs) = map (\<lambda>x. c * x) (expanding_max_from m xs)"
  by (induction xs arbitrary: m) (auto simp: max_def)

lemma expanding_max_scale:
  "0 < (c::real) \<Longrightarrow> expanding_max (map (\<lambda>x. c * x) xs) = map (\<lambda>x. c * x) (expanding_max xs)"
  by (cases xs) (auto simp: expanding_max_from_scale)

lemma np_div_scale:
  "0 < (c::real) \<Longrightarrow> np_div (c * v - c * m) (c * m) = np_div (v - m) m"
  by (auto simp: np_div_def right_diff_distrib[symmetric] zero_less_mult_iff mult_less_0_iff)

lemma drawdown_scale:
  "0 < (c::real) \<Longrightarrow> drawdown (map (\<lambda>x. c * x) vs) (map (\<lambda>x. c * x) ms) = drawdown vs ms"
  by (simp add: drawdown_def zip_map_map o_def case_prod_unfold np_div_scale)

text \<open>
  C5. For every return series and every positive initial capital, the maximum drawdown
  of PerformanceAnalytics on the returns, that of RiskManager on the returns, and that
  of MonteCarloSimulator on the portfolio values compounded from the capital are the
  same value (over the reals, where the floating tolerance of the claim is zero).
\<close>

theorem max_drawdown_agree:
  "0 < initial_capital \<Longrightarrow>
   rm_calculate_max_drawdown returns = pa_calculate_max_drawdown returns \<and>
   mc_calculate_max_drawdown (portfolio_values_of initial_capital returns) =
     pa_calculate_max_drawdown returns"
  by (simp add: pa_calculate_max_drawdown_def rm_calculate_max_drawdown_def
      mc_calculate_max_drawdown_def portfolio_values_of_def Let_def expanding_max_scale
      drawdown_scale)

theorem max_drawdown_agree_witness:
  "(0::real) < 1000 \<and>
   pa_calculate_max_drawdown [0.1, - 0.5, 0.2] = Fin (- 0.5) \<and>
   rm_calculate_max_drawdown [0.1, - 0.5, 0.2] = Fin (- 0.5) \<and>
   mc_calculate_max_drawdown (portfolio_values_of 1000 [0.1, - 0.5, 0.2]) = Fin (- 0.5)"
proof -
  have p: "pa_calculate_max_drawdown [0.1, - 0.5, 0.2] = Fin (- 0.5)"
    by (simp add: pa_calculate_max_drawdown_def cumprod_def drawdown_def series_min_def
        np_div_def Let_def)
  show ?thesis
    using max_drawdown_agree[of 1000 "[0.1, - 0.5, 0.2]"] p by simp
qed

section \<open>Properties of the result validator\<close>

subsection \<open>Known data points\<close>













text \<open>
  C10. A symbol other than AAPL and MSFT has no entry in the reference table, and the
  known-data-point check returns 1.0 for it whatever the frame holds.
\<close>

theorem known_points_unlisted_symbol:
  "symbol \<noteq> ''AAPL'' \<Longrightarrow> symbol \<noteq> ''MSFT'' \<Longrightarrow>
   map_of validation_data symbol = None \<and> validate_known_data_points symbol df = 1"
  by (simp add: validate_known_data_points_def validation_data_def)

theorem known_points_unlisted_symbol_witness:
  "''GOOG'' \<noteq> ''AAPL'' \<and> ''GOOG'' \<noteq> ''MSFT'' \<and>
   validate_known_data_points ''GOOG''
     [(''2021-01-04'', [(''Open'', Fin 0), (''Close'', NaN), (''Volume'', Fin (- 5))])] = 1"
  using known_points_unlisted_symbol
    [of "''GOOG''" "[(''2021-01-04'', [(''Open'', Fin 0), (''Close'', NaN), (''Volume'', Fin (- 5))])]"]
  by simp

subsection \<open>Accuracy metrics\<close>

text \<open>
  C8, as the code has it. Given the results of the categories it reads, each validator
  reports as overall accuracy the arithmetic mean of the category scores it computes:
  the framework the mean of the data, calculation and strategy scores; the validator of
  \<^verbatim>\<open>backtest_validator.py\<close> the mean of the data and calculation scores, while the
  strategy accuracy it reports is the constant 1.0, which is not averaged in.
\<close>

theorem overall_accuracy_mean:
  assumes "vr ''data_validation'' = Some dv"
    and "vr ''calculation_validation'' = Some cv"
  shows "(\<forall>sv. vr ''strategy_validation'' = Some sv \<longrightarrow>
            (\<exists>m. calculate_accuracy_metrics_framework vr = Inr m \<and>
                 data_accuracy m = score dv \<and> calculation_accuracy m = score cv \<and>
                 strategy_accuracy m = score sv \<and>
                 overall_accuracy m =
                   (data_accuracy m + calculation_accuracy m + strategy_accuracy m) / 3)) \<and>
         (\<exists>m. calculate_accuracy_metrics_validator vr = Inr m \<and>
              data_accuracy m = score dv \<and> calculation_accuracy m = score cv \<and>
              strategy_accuracy m = 1 \<and>
              overall_accuracy m = (data_accuracy m + calculation_accuracy m) / 2)"
  using assms
  by (simp add: calculate_accuracy_metrics_framework_def calculate_accuracy_metrics_validator_def
      Let_def)

theorem overall_accuracy_mean_witness:
  "sample_results ''data_validation'' = Some (sample_result 0.9) \<and>
   sample_results ''calculation_validation'' = Some (sample_result 0.6) \<and>
   sample_results ''strategy_validation'' = Some (sample_result 0.3) \<and>
   overall_accuracy (projr (calculate_accuracy_metrics_framework sample_results)) = 0.6 \<and>
   overall_accuracy (projr (calculate_accuracy_metrics_validator sample_results)) = 0.75"
proof -
  have h1: "sample_results ''data_validation'' = Some (sample_result 0.9)"
    by (simp add: sample_results_def)
  have h2: "sample_results ''calculation_validation'' = Some (sample_result 0.6)"
    by (simp add: sample_results_def)
  have h3: "sample_results ''strategy_validation'' = Some (sample_result 0.3)"
    by (simp add: sample_results_def)
  from overall_accuracy_mean[OF h1 h2] h3
  obtain m m' where
    "calculate_accuracy_metrics_framework sample_results = Inr m"
    "overall_accuracy m = (score (sample_result 0.9) + score (sample_result 0.6) +
        score (sample_result 0.3)) / 3"
    "calculate_accuracy_metrics_validator sample_results = Inr m'"
    "overall_accuracy m' = (score (sample_result 0.9) + score (sample_result 0.6)) / 2"
    by auto
  then show ?thesis using h1 h2 h3 by (simp add: sample_result_def)
qed

text \<open>
  C8 as stated fails for \<^verbatim>\<open>backtest_validator.py\<close>: with data score 0.9 and calculation
  score 0.6 it reports overall accuracy 0.75 beside the accuracies 0.9, 0.6 and 1.0,
  whose mean is 5/6.
\<close>

theorem overall_accuracy_validator_counterexample:
  "overall_accuracy (projr (calculate_accuracy_metrics_validator sample_results)) = 0.75 \<and>
   (data_accuracy (projr (calculate_accuracy_metrics_validator sample_results)) +
    calculation_accuracy (projr (calculate_accuracy_metrics_validator sample_results)) +
    strategy_accuracy (projr (calculate_accuracy_metrics_validator sample_results))) / 3 = 5 / 6 \<and>
   overall_accuracy (projr (calculate_accuracy_metrics_validator sample_results)) \<noteq>
   (data_accuracy (projr (calculate_accuracy_metrics_validator sample_results)) +
    calculation_accuracy (projr (calculate_accuracy_metrics_validator sample_results)) +
    strategy_accuracy (projr (calculate_accuracy_metrics_validator sample_results))) / 3"
  by (simp add: calculate_accuracy_metrics_validator_def sample_results_def sample_result_def
      Let_def)

subsection \<open>Calculation validation with no trades\<close>

lemma validate_calculations_no_trades:
  assumes "br_trades r = None \<or> br_trades r = Some []"
    and "br_portfolio_value r \<noteq> Some []"
  shows "validate_calculations r =
           Inr \<lparr>test_name = ''Calculation Validation'', passed = False, score = 0,
                error_message = Some ''No trades to validate'',
                recommendations = [''Ensure strategy generates trades'',
                                   ''Check strategy parameters'']\<rparr>"
  using assms
  by (auto simp: validate_calculations_def Let_def split: option.splits list.splits)

text \<open>
  C9 at the failing input: a payload with an empty trade list and an empty
  portfolio-value series. The first element of the series is read before the trade list
  is looked at, and the read raises.
\<close>

theorem validate_calculations_empty_series:
  "validate_calculations
     \<lparr>br_trades = Some [], br_portfolio_value = Some [], br_performance = None\<rparr>
   = Inl IndexError"
  by (simp add: validate_calculations_def)

end
